theory Spec2Isabelle
  imports Complex_Main "HOL-Library.Sublist"
begin

section \<open>Python values used by the two pipelines\<close>

text \<open>
  Exceptions are values. \<open>ValueError\<close>, \<open>IndexError\<close> and \<open>Exception\<close> are the classes
  the repository's code raises itself (or provokes by indexing); \<open>External_error\<close> stands for
  any exception raised inside a third-party service (transcript API, completion client), of
  which the code only ever reads \<open>str(e)\<close>.
\<close>

datatype py_exn =
    ValueError string
  | IndexError string
  | Exception string
  | External_error string

fun exn_str :: "py_exn \<Rightarrow> string" where
  "exn_str (ValueError m) = m"
| "exn_str (IndexError m) = m"
| "exn_str (Exception m) = m"
| "exn_str (External_error m) = m"

definition exn_bind :: "py_exn + 'a \<Rightarrow> ('a \<Rightarrow> py_exn + 'b) \<Rightarrow> py_exn + 'b" where
  "exn_bind m f = (case m of Inl e \<Rightarrow> Inl e | Inr x \<Rightarrow> f x)"

text \<open>
  \<open>sub in s\<close> on Python strings: \<open>sub\<close> occurs in \<open>s\<close> as a contiguous block.
  Strings are lists of bytes here; every marker and separator of the code is ASCII, and an
  ASCII byte never occurs inside the UTF-8 encoding of another character, so searching and
  cutting agree with Python's on code points.
\<close>

fun str_contains :: "string \<Rightarrow> string \<Rightarrow> bool" where
  "str_contains sub [] = (sub = [])"
| "str_contains sub (c # cs) = (prefix sub (c # cs) \<or> str_contains sub cs)"

text \<open>
  \<open>s.split(sep)\<close>: scan from the left, cut at every non-overlapping occurrence of the
  separator. \<open>cur\<close> is the piece collected since the last cut. Python raises
  \<open>ValueError\<close> on an empty separator.
\<close>

function split_from :: "string \<Rightarrow> string \<Rightarrow> string \<Rightarrow> string list" where
  "split_from sep cur s =
     (if s = [] then [cur]
      else if sep \<noteq> [] \<and> prefix sep s then cur # split_from sep [] (drop (length sep) s)
      else split_from sep (cur @ [hd s]) (tl s))"
  by pat_completeness auto
termination
  by (relation "measure (\<lambda>(sep, cur, s). length s)") auto

definition py_split :: "string \<Rightarrow> string \<Rightarrow> py_exn + string list" where
  "py_split s sep =
     (if sep = [] then Inl (ValueError ''empty separator'') else Inr (split_from sep [] s))"

text \<open>\<open>xs[i]\<close>: a negative index counts from the end; out of range raises \<open>IndexError\<close>.\<close>

definition py_index :: "'a list \<Rightarrow> int \<Rightarrow> py_exn + 'a" where
  "py_index xs i =
     (if 0 \<le> i \<and> i < int (length xs) then Inr (xs ! nat i)
      else if i < 0 \<and> - int (length xs) \<le> i then Inr (xs ! nat (int (length xs) + i))
      else Inl (IndexError ''list index out of range''))"

text \<open>\<open>sep.join(xs)\<close>.\<close>

fun py_join :: "string \<Rightarrow> string list \<Rightarrow> string" where
  "py_join sep [] = []"
| "py_join sep [x] = x"
| "py_join sep (x # y # ys) = x @ sep @ py_join sep (y # ys)"

text \<open>\<open>str(n)\<close> for a non-negative integer: its decimal digits.\<close>

definition digit_char :: "nat \<Rightarrow> char" where
  "digit_char d = ''0123456789'' ! (d mod 10)"

function py_str_nat :: "nat \<Rightarrow> string" where
  "py_str_nat n = (if n < 10 then [digit_char n] else py_str_nat (n div 10) @ [digit_char (n mod 10)])"
  by pat_completeness auto
termination
  by (relation "measure id") auto

text \<open>
  \<open>repr(s)\<close> of a string: in double quotes when the string holds an apostrophe and no
  double quote, in apostrophes otherwise; the backslash, the chosen quote and the control
  characters are escaped (\<^verbatim>\<open>\t\<close>, \<^verbatim>\<open>\n\<close>, \<^verbatim>\<open>\r\<close>, and
  \<^verbatim>\<open>\x\<close> with two lower-case hexadecimal digits for the others). Bytes from 128 on
  are kept, as Python keeps a printable
  character beyond ASCII.
\<close>

definition hex_digit :: "nat \<Rightarrow> char" where
  "hex_digit d = ''0123456789abcdef'' ! (d mod 16)"

definition py_repr_char :: "char \<Rightarrow> char \<Rightarrow> string" where
  "py_repr_char quote c =
     (if c = CHR 0x5C then [CHR 0x5C, CHR 0x5C]
      else if c = quote then [CHR 0x5C, quote]
      else if c = CHR 0x09 then [CHR 0x5C, CHR ''t'']
      else if c = CHR 0x0A then [CHR 0x5C, CHR ''n'']
      else if c = CHR 0x0D then [CHR 0x5C, CHR ''r'']
      else if (of_char c :: nat) < 32 \<or> (of_char c :: nat) = 127
        then [CHR 0x5C, CHR ''x'', hex_digit (of_char c div 16), hex_digit (of_char c mod 16)]
      else [c])"

definition py_repr_str :: "string \<Rightarrow> string" where
  "py_repr_str s =
     (let quote = (if CHR 0x27 \<in> set s \<and> CHR 0x22 \<notin> set s then CHR 0x22 else CHR 0x27)
      in [quote] @ concat (map (py_repr_char quote) s) @ [quote])"

text \<open>
  \<open>str(names)\<close> for a list of strings, as the f-string template renders \<open>tool_names\<close>:
  the \<open>repr\<close> of each name, separated by a comma and a space, in brackets.
\<close>

definition py_str_list :: "string list \<Rightarrow> string" where
  "py_str_list names = ''['' @ py_join '', '' (map py_repr_str names) @ '']''"

section \<open>The outside world\<close>

text \<open>One caption unit as the transcript service delivers it; only the text is consumed.\<close>

record transcript_segment =
  seg_text :: string
  seg_start :: real
  seg_duration :: real

text \<open>The keyword arguments of \<open>ChatGroq(...)\<close>; \<open>None\<close> is \<open>None\<close>.\<close>

record chat_options =
  model :: string
  temperature :: real
  max_tokens :: "nat option"
  timeout :: "real option"
  max_retries :: nat

text \<open>
  What a run does that an observer can see: a line printed, a request to the transcript
  service, an invocation of the completion client (with its options and the rendered
  prompt).
\<close>

datatype event =
    Print string
  | Transcript_request string
  | Completion_request chat_options string

text \<open>
  The third-party code, as parameters, each of which can raise:
  \<^item> \<open>tiktoken_encode\<close>: \<open>tiktoken.encoding_for_model(model_name).encode(text)\<close>, the
    tokens or the text of the exception raised (the vocabulary cannot be loaded, the text
    holds a special token);
  \<^item> \<open>ChatGroq_raises\<close>: the text of the exception that building \<open>ChatGroq(...)\<close> with
    these options raises, if it raises;
  \<^item> \<open>transcript_api\<close>: \<open>YouTubeTranscriptApi.get_transcript\<close>;
  \<^item> \<open>chat_invoke\<close>: the invocation of the configured chat model on a rendered prompt.
  An exception of the first two is not caught by the code and reaches the caller as it is:
  it is the \<open>External_error\<close> with that text.
\<close>

record env =
  tiktoken_encode :: "string \<Rightarrow> string \<Rightarrow> string + nat list"
  ChatGroq_raises :: "chat_options \<Rightarrow> string option"
  transcript_api :: "string \<Rightarrow> py_exn + transcript_segment list"
  chat_invoke :: "chat_options \<Rightarrow> string \<Rightarrow> py_exn + string"

fun completion_options :: "event list \<Rightarrow> chat_options list" where
  "completion_options [] = []"
| "completion_options (Completion_request opts p # es) = opts # completion_options es"
| "completion_options (e # es) = completion_options es"

section \<open>utils/prompts.py\<close>

definition count_tokens :: "env \<Rightarrow> string \<Rightarrow> string \<Rightarrow> py_exn + nat" where
  "count_tokens w txt model_name =
     (case tiktoken_encode w model_name txt of
        Inl msg \<Rightarrow> Inl (External_error msg)
      | Inr tokens \<Rightarrow> Inr (length tokens))"

text \<open>The tokens are counted first; when that raises, nothing has been printed.\<close>

definition analyze_prompt :: "env \<Rightarrow> string \<Rightarrow> string \<Rightarrow> (py_exn + unit) \<times> event list" where
  "analyze_prompt w prompt_text model_name =
     (case count_tokens w prompt_text model_name of
        Inl e \<Rightarrow> (Inl e, [])
      | Inr num_tokens \<Rightarrow>
          (Inr (),
           [Print (''Prompt Text: '' @ prompt_text),
            Print (''Prompt Input Tokens: '' @ py_str_nat num_tokens)]))"

definition default_model_name :: string where
  "default_model_name = ''gpt-4o-mini''"

section \<open>classes/YouTubeSummarizer.py\<close>

record YouTubeSummarizer =
  yt_model_name :: string
  top_n_points :: nat

definition YouTubeSummarizer_init :: "YouTubeSummarizer \<times> event list" where
  "YouTubeSummarizer_init =
     (let self = \<lparr>yt_model_name = ''llama-3.2-3b-preview'', top_n_points = 5\<rparr>
      in (self, [Print (''Using AI Model: '' @ yt_model_name self @ [CHR 0x0A])]))"

definition get_video_id :: "string \<Rightarrow> py_exn + string" where
  "get_video_id url =
     (if str_contains ''youtu.be'' url then
        exn_bind (py_split url ''/'') (\<lambda>parts.
        exn_bind (py_index parts (- 1)) (\<lambda>seg.
        exn_bind (py_split seg ''?'') (\<lambda>qs. py_index qs 0)))
      else if str_contains ''youtube.com'' url then
        exn_bind (py_split url ''v='') (\<lambda>parts.
        exn_bind (py_index parts 1) (\<lambda>val.
        exn_bind (py_split val ''&'') (\<lambda>as. py_index as 0)))
      else Inl (ValueError ''URL must be a valid YouTube URL (youtube.com or youtu.be format)''))"

text \<open>
  \<open>get_transcript\<close>: the guard, then one call of the service inside \<open>try\<close>; every
  exception of the call is re-raised as a plain \<open>Exception\<close> carrying its text.
\<close>

definition get_transcript :: "env \<Rightarrow> string \<Rightarrow> (py_exn + string) \<times> event list" where
  "get_transcript w video_id =
     (if video_id = [] then (Inl (ValueError ''Video ID is required''), [])
      else
        (case transcript_api w video_id of
           Inr transcript_segments \<Rightarrow> Inr (py_join '' '' (map seg_text transcript_segments))
         | Inl e \<Rightarrow> Inl (Exception (''Failed to retrieve transcript: '' @ exn_str e)),
         [Transcript_request video_id]))"

text \<open>
  The summarization template, as the function \<open>prompt.format\<close> computes from its two
  fields. Every line of the source's triple-quoted text is indented by eight blanks.
\<close>

definition nl :: string where
  "nl = [CHR 0x0A]"

definition ind :: string where
  "ind = ''        ''"

definition create_prompt :: "string \<Rightarrow> nat \<Rightarrow> string" where
  "create_prompt YouTube_Transcript top_n = concat
     [nl,
      ind, ''Summarize the following YouTube video transcript:'', nl,
      nl,
      ind, YouTube_Transcript, nl,
      nl,
      ind, ''Please provide:'', nl,
      ind, ''1. A brief overview of the video's main topic or theme'', nl,
      ind, ''2. Identify the speakers.'', nl,
      ind, ''3. The top '', py_str_nat top_n,
           '' most important points or insights presented, with a short explanation for each'', nl,
      ind, ''4. Any notable quotes or statements made by the speaker(s)'', nl,
      ind, ''5. Key takeaways or conclusions from the video'', nl,
      nl,
      ind, ''Your response should be well-structured and easy to read'', nl,
      ind]"

definition get_prompt_tokens ::
    "env \<Rightarrow> YouTubeSummarizer \<Rightarrow> string \<Rightarrow> (string \<Rightarrow> nat \<Rightarrow> string) \<Rightarrow>
       (py_exn + unit) \<times> event list" where
  "get_prompt_tokens w self transcript prompt =
     (let formatted_prompt = prompt transcript (top_n_points self)
      in analyze_prompt w formatted_prompt default_model_name)"

text \<open>
  \<open>summarize\<close>: the guard; the token analysis and the construction of the chat model,
  both before the \<open>try\<close>, so that what they raise is not wrapped; then the chain inside
  the \<open>try\<close>, which renders the prompt and invokes the model.
\<close>

definition summarize ::
    "env \<Rightarrow> YouTubeSummarizer \<Rightarrow> string \<Rightarrow> (py_exn + string) \<times> event list" where
  "summarize w self transcript =
     (if transcript = [] then (Inl (ValueError ''Transcript is required for summarization''), [])
      else
        (let prompt = create_prompt in
         case get_prompt_tokens w self transcript prompt of
           (Inl e, printed) \<Rightarrow> (Inl e, printed)
         | (Inr u, printed) \<Rightarrow>
             (let chat = \<lparr>model = yt_model_name self, temperature = 0.5, max_tokens = None,
                           timeout = None, max_retries = 2\<rparr>
              in case ChatGroq_raises w chat of
                   Some msg \<Rightarrow> (Inl (External_error msg), printed)
                 | None \<Rightarrow>
                     (let rendered = prompt transcript (top_n_points self)
                      in (case chat_invoke w chat rendered of
                            Inr answer \<Rightarrow> Inr answer
                          | Inl e \<Rightarrow> Inl (Exception (''AI summarization failed: '' @ exn_str e)),
                          printed @ [Completion_request chat rendered])))))"

definition process_video ::
    "env \<Rightarrow> YouTubeSummarizer \<Rightarrow> string \<Rightarrow> (py_exn + string) \<times> event list" where
  "process_video w self url =
     (case get_video_id url of
        Inl e \<Rightarrow> (Inl e, [])
      | Inr video_id \<Rightarrow>
          (case get_transcript w video_id of
             (Inl e, evs) \<Rightarrow> (Inl e, evs)
           | (Inr transcript, evs) \<Rightarrow>
               (case summarize w self transcript of (res, evs') \<Rightarrow> (res, evs @ evs'))))"

section \<open>classes/MultiTools.py\<close>

text \<open>
  A tool as the prompt sees it: its name and description. The callable behind it is never
  invoked by this code and is left out.
\<close>

record tool =
  tool_name :: string
  description :: string

record MultiToolsAgent =
  agent_model_name :: string
  tools :: "tool list"
  tools_str :: string
  tool_names :: "string list"

definition initialize_tools :: "MultiToolsAgent \<Rightarrow> MultiToolsAgent" where
  "initialize_tools self =
     (let python_repl = \<lparr>tool_name = ''python repl'',
            description = ''Useful for executing Python code to answer computational questions''\<rparr>;
          wikipedia = \<lparr>tool_name = ''wikipedia'',
            description =
              ''Useful for looking up factual information about topics, countries or people''\<rparr>;
          ts = [python_repl, wikipedia]
      in self\<lparr>tools := ts,
              tools_str := concat (map (\<lambda>t. tool_name t @ '': '' @ description t @ nl) ts),
              tool_names := map tool_name ts\<rparr>)"

definition MultiToolsAgent_init :: "MultiToolsAgent \<times> event list" where
  "MultiToolsAgent_init =
     (let self = \<lparr>agent_model_name = ''llama-3.2-3b-preview'', tools = [], tools_str = [],
                   tool_names = []\<rparr>
      in (initialize_tools self,
          [Print (''Using AI Model: '' @ agent_model_name self @ [CHR 0x0A])]))"

definition agent_create_prompt :: "string \<Rightarrow> string list \<Rightarrow> string \<Rightarrow> string" where
  "agent_create_prompt tools_txt names question = concat
     [nl,
      ind, ''Answer the following questions as best you can. You have access to the following tools:'', nl,
      nl,
      ind, tools_txt, nl,
      nl,
      ind, ''Use the following format:'', nl,
      nl,
      ind, ''Question: the input question you must answer'', nl,
      ind, ''Thought: you should always think about what to do'', nl,
      ind, ''Action: the action to take, should be one of '', py_str_list names, nl,
      ind, ''Action Input: the input to the action'', nl,
      ind, ''Observation: the result of the action'', nl,
      ind, ''... (this Thought/Action/Action Input/Observation can repeat N times)'', nl,
      ind, ''Thought: I now know the final answer'', nl,
      ind, ''Final Answer: the final answer to the original input question'', nl,
      nl,
      ind, ''Begin!'', nl,
      nl,
      ind, ''Question: '', question, nl,
      ind]"

definition analyze_prompt_tokens ::
    "env \<Rightarrow> MultiToolsAgent \<Rightarrow> string \<Rightarrow> (string \<Rightarrow> string list \<Rightarrow> string \<Rightarrow> string) \<Rightarrow>
       (py_exn + unit) \<times> event list" where
  "analyze_prompt_tokens w self question prompt =
     (let prompt_text = prompt (tools_str self) (tool_names self) question
      in analyze_prompt w prompt_text default_model_name)"

text \<open>
  \<open>ask\<close>: the question is \<open>None\<close> or a string; only \<open>None\<close> is tested for. As in
  \<open>summarize\<close>, the token analysis and the construction of the chat model come before
  the \<open>try\<close>.
\<close>

definition ask ::
    "env \<Rightarrow> MultiToolsAgent \<Rightarrow> string option \<Rightarrow> (py_exn + string) \<times> event list" where
  "ask w self question =
     (case question of
        None \<Rightarrow> (Inl (ValueError ''Question cannot be None''), [])
      | Some q \<Rightarrow>
          (let prompt = agent_create_prompt in
           case analyze_prompt_tokens w self q prompt of
             (Inl e, printed) \<Rightarrow> (Inl e, printed)
           | (Inr u, printed) \<Rightarrow>
               (let chat = \<lparr>model = agent_model_name self, temperature = 0, max_tokens = None,
                             timeout = None, max_retries = 2\<rparr>
                in case ChatGroq_raises w chat of
                     Some msg \<Rightarrow> (Inl (External_error msg), printed)
                   | None \<Rightarrow>
                       (let rendered = prompt (tools_str self) (tool_names self) q
                        in (case chat_invoke w chat rendered of
                              Inr answer \<Rightarrow> Inr answer
                            | Inl e \<Rightarrow>
                                Inl (Exception (''Error processing question: '' @ exn_str e)),
                            printed @ [Completion_request chat rendered])))))"

section \<open>A concrete outside world, for running the definitions\<close>

text \<open>
  A tokenizer with one token per character, a chat model that can be built, a transcript
  service that delivers three segments, and a completion service that answers; and a world
  without network, where the vocabulary of the tokenizer cannot be loaded and both
  services are down.
\<close>

definition sample_env :: env where
  "sample_env =
     \<lparr>tiktoken_encode = (\<lambda>m txt. Inr (map of_char txt)),
      ChatGroq_raises = (\<lambda>opts. None),
      transcript_api = (\<lambda>vid. Inr [\<lparr>seg_text = ''a'', seg_start = 0, seg_duration = 1\<rparr>,
                                    \<lparr>seg_text = ''b'', seg_start = 1, seg_duration = 1\<rparr>,
                                    \<lparr>seg_text = ''c'', seg_start = 2, seg_duration = 1\<rparr>]),
      chat_invoke = (\<lambda>opts p. Inr ''ok'')\<rparr>"

definition offline_env :: env where
  "offline_env =
     \<lparr>tiktoken_encode = (\<lambda>m txt. Inl ''Max retries exceeded with url: o200k_base.tiktoken''),
      ChatGroq_raises = (\<lambda>opts. None),
      transcript_api = (\<lambda>vid. Inl (External_error ''Subtitles are disabled for this video'')),
      chat_invoke = (\<lambda>opts p. Inl (External_error ''Connection error.''))\<rparr>"

section \<open>Notions the specification speaks in\<close>

text \<open>
  The part of a string after its last occurrence of a character (the whole string when the
  character does not occur): what the specification calls the segment after the last
  \<open>/\<close>.
\<close>

definition after_last :: "char \<Rightarrow> string \<Rightarrow> string" where
  "after_last c s = rev (takeWhile (\<lambda>x. x \<noteq> c) (rev s))"

text \<open>The part of a string before its first occurrence of a character (or all of it).\<close>

definition before_first :: "char \<Rightarrow> string \<Rightarrow> string" where
  "before_first c s = takeWhile (\<lambda>x. x \<noteq> c) s"

section \<open>Facts about the string primitives\<close>

declare split_from.simps [simp del]
declare py_str_nat.simps [simp del]

lemma str_contains_iff: "str_contains sub s \<longleftrightarrow> (\<exists>a b. s = a @ sub @ b)"
proof (induction s)
  case Nil
  then show ?case by auto
next
  case (Cons c cs)
  show ?case
  proof
    assume "str_contains sub (c # cs)"
    then consider "prefix sub (c # cs)" | "str_contains sub cs" by auto
    then show "\<exists>a b. c # cs = a @ sub @ b"
    proof cases
      case 1
      then obtain b where "c # cs = sub @ b" by (auto simp: prefix_def)
      then have "c # cs = [] @ sub @ b" by simp
      then show ?thesis by (intro exI)
    next
      case 2
      with Cons.IH obtain a b where "cs = a @ sub @ b" by blast
      then have "c # cs = (c # a) @ sub @ b" by simp
      then show ?thesis by (intro exI)
    qed
  next
    assume "\<exists>a b. c # cs = a @ sub @ b"
    then obtain a b where ab: "c # cs = a @ sub @ b" by (elim exE)
    show "str_contains sub (c # cs)"
    proof (cases a)
      case Nil
      with ab have "prefix sub (c # cs)" by (simp add: prefix_def)
      then show ?thesis by simp
    next
      case (Cons x a')
      with ab have "cs = a' @ sub @ b" by simp
      then have "\<exists>a b. cs = a @ sub @ b" by (intro exI)
      with Cons.IH have "str_contains sub cs" by simp
      then show ?thesis by simp
    qed
  qed
qed

lemma str_contains_char: "str_contains [c] s \<longleftrightarrow> c \<in> set s"
  by (induction s) auto

lemma split_from_Nil: "split_from sep cur [] = [cur]"
  by (simp add: split_from.simps)

lemma split_from_hit:
  "sep \<noteq> [] \<Longrightarrow> split_from sep cur (sep @ rest) = cur # split_from sep [] rest"
  by (subst split_from.simps) simp

lemma split_from_miss:
  "\<not> prefix sep (c # cs) \<Longrightarrow> split_from sep cur (c # cs) = split_from sep (cur @ [c]) cs"
  by (subst split_from.simps) simp

lemma split_from_not_Nil: "split_from sep cur s \<noteq> []"
  by (induction sep cur s rule: split_from.induct) (subst split_from.simps, simp)

lemma split_from_absent:
  "\<not> str_contains sep s \<Longrightarrow> sep \<noteq> [] \<Longrightarrow> split_from sep cur s = [cur @ s]"
proof (induction s arbitrary: cur)
  case Nil
  then show ?case by (simp add: split_from_Nil)
next
  case (Cons c cs)
  then show ?case by (simp add: split_from_miss)
qed

lemma split_from_first:
  assumes "sep \<noteq> []" and "\<not> str_contains sep (pre @ butlast sep)"
  shows "split_from sep cur (pre @ sep @ rest) = (cur @ pre) # split_from sep [] rest"
  using assms(2)
proof (induction pre arbitrary: cur)
  case Nil
  show ?case using assms(1) by (simp add: split_from_hit)
next
  case (Cons p ps)
  have np: "\<not> prefix sep (p # ps @ butlast sep)" and nc: "\<not> str_contains sep (ps @ butlast sep)"
    using Cons.prems by auto
  have "\<not> prefix sep (p # ps @ sep @ rest)"
  proof
    assume h: "prefix sep (p # ps @ sep @ rest)"
    have "prefix (p # ps @ butlast sep) (p # ps @ sep @ rest)"
      using assms(1) prefixI [of "p # ps @ sep @ rest" "p # ps @ butlast sep" "last sep # rest"]
      by simp
    moreover have "length sep \<le> length (p # ps @ butlast sep)" by simp
    ultimately have "prefix sep (p # ps @ butlast sep)"
      using h prefix_length_prefix [of sep "p # ps @ sep @ rest" "p # ps @ butlast sep"]
      by simp
    with np show False by simp
  qed
  then have "split_from sep cur ((p # ps) @ sep @ rest) = split_from sep (cur @ [p]) (ps @ sep @ rest)"
    by (simp add: split_from_miss)
  also have "\<dots> = ((cur @ [p]) @ ps) # split_from sep [] rest"
    using Cons.IH [OF nc] .
  finally show ?case by simp
qed

lemma takeWhile_absent: "c \<notin> set s \<Longrightarrow> takeWhile (\<lambda>x. x \<noteq> c) s = s"
  by (induction s) auto

lemma after_last_Cons:
  "after_last c (x # xs) =
     (if c \<in> set xs then after_last c xs else if x = c then xs else x # xs)"
proof (cases "c \<in> set xs")
  case True
  then have "takeWhile (\<lambda>y. y \<noteq> c) (rev xs @ [x]) = takeWhile (\<lambda>y. y \<noteq> c) (rev xs)"
    by (intro takeWhile_append1 [of c]) auto
  then show ?thesis using True by (simp add: after_last_def)
next
  case False
  then have "takeWhile (\<lambda>y. y \<noteq> c) (rev xs @ [x]) = rev xs @ takeWhile (\<lambda>y. y \<noteq> c) [x]"
    by (intro takeWhile_append2) auto
  then show ?thesis using False by (simp add: after_last_def)
qed

lemma after_last_absent: "c \<notin> set s \<Longrightarrow> after_last c s = s"
  by (simp add: after_last_def takeWhile_absent)

lemma after_last_append: "c \<notin> set seg \<Longrightarrow> after_last c (pre @ c # seg) = seg"
proof -
  assume "c \<notin> set seg"
  then have "takeWhile (\<lambda>x. x \<noteq> c) (rev seg) = rev seg"
    by (simp add: takeWhile_absent)
  moreover have "takeWhile (\<lambda>x. x \<noteq> c) (rev seg @ c # rev pre) =
      takeWhile (\<lambda>x. x \<noteq> c) (rev seg)"
    by (rule takeWhile_tail) simp
  ultimately have "takeWhile (\<lambda>x. x \<noteq> c) (rev (pre @ c # seg)) = rev seg"
    by (simp del: takeWhile_eq_all_conv)
  then show ?thesis
    unfolding after_last_def by (simp only: rev_rev_ident)
qed

lemma hd_split_from_char: "hd (split_from [c] cur s) = cur @ before_first c s"
proof (induction s arbitrary: cur)
  case Nil
  then show ?case by (simp add: split_from_Nil before_first_def)
next
  case (Cons x xs)
  show ?case
  proof (cases "x = c")
    case True
    then show ?thesis using split_from_hit [of "[c]" cur xs] by (simp add: before_first_def)
  next
    case False
    then show ?thesis using Cons.IH [of "cur @ [x]"]
      by (simp add: split_from_miss before_first_def)
  qed
qed

lemma last_split_from_char:
  "last (split_from [c] cur s) = (if c \<in> set s then after_last c s else cur @ s)"
proof (induction s arbitrary: cur)
  case Nil
  then show ?case by (simp add: split_from_Nil)
next
  case (Cons x xs)
  show ?case
  proof (cases "x = c")
    case True
    have "split_from [c] cur (x # xs) = cur # split_from [c] [] xs"
      using True split_from_hit [of "[c]" cur xs] by simp
    then have "last (split_from [c] cur (x # xs)) = last (split_from [c] [] xs)"
      by (simp add: split_from_not_Nil)
    also have "\<dots> = (if c \<in> set xs then after_last c xs else xs)"
      using Cons.IH [of "[]"] by simp
    also have "\<dots> = after_last c (x # xs)"
      unfolding after_last_Cons using True by simp
    finally show ?thesis using True by simp
  next
    case False
    have "last (split_from [c] cur (x # xs)) = last (split_from [c] (cur @ [x]) xs)"
      using False by (simp add: split_from_miss)
    also have "\<dots> = (if c \<in> set xs then after_last c xs else cur @ x # xs)"
      using Cons.IH [of "cur @ [x]"] by simp
    finally show ?thesis unfolding after_last_Cons using False by simp
  qed
qed

lemma last_split_from_char_Nil: "last (split_from [c] [] s) = after_last c s"
  by (simp add: last_split_from_char after_last_absent)

lemma hd_split_from_spec:
  assumes "sep \<noteq> []"
  shows "\<exists>r tail. hd (split_from sep cur s) = cur @ r \<and> s = r @ tail \<and>
           \<not> str_contains sep r \<and> (tail = [] \<or> prefix sep tail)"
proof (induction s arbitrary: cur)
  case Nil
  have "hd (split_from sep cur []) = cur @ [] \<and> [] = [] @ [] \<and>
        \<not> str_contains sep [] \<and> ([] = [] \<or> prefix sep [])"
    using assms by (simp add: split_from_Nil)
  then show ?case by (intro exI)
next
  case (Cons x xs)
  show ?case
  proof (cases "prefix sep (x # xs)")
    case True
    then obtain rest where r: "x # xs = sep @ rest" by (auto simp: prefix_def)
    have "hd (split_from sep cur (x # xs)) = cur @ []"
      using assms by (simp add: r split_from_hit)
    moreover have "x # xs = [] @ (x # xs)" by simp
    moreover have "\<not> str_contains sep []" using assms by simp
    ultimately have "hd (split_from sep cur (x # xs)) = cur @ [] \<and> x # xs = [] @ (x # xs) \<and>
        \<not> str_contains sep [] \<and> (x # xs = [] \<or> prefix sep (x # xs))"
      using True by simp
    then show ?thesis by (intro exI)
  next
    case False
    from Cons.IH [of "cur @ [x]"] obtain r tail where
      h: "hd (split_from sep (cur @ [x]) xs) = (cur @ [x]) @ r" "xs = r @ tail"
         "\<not> str_contains sep r" "tail = [] \<or> prefix sep tail" by (elim exE conjE)
    have 1: "hd (split_from sep cur (x # xs)) = cur @ (x # r)"
      using False h(1) by (simp add: split_from_miss)
    have 2: "x # xs = (x # r) @ tail" using h(2) by simp
    have "\<not> prefix sep (x # r)"
      using False h(2) prefix_prefix [of sep "x # r" tail] by auto
    then have 3: "\<not> str_contains sep (x # r)" using h(3) by simp
    have "hd (split_from sep cur (x # xs)) = cur @ (x # r) \<and> x # xs = (x # r) @ tail \<and>
        \<not> str_contains sep (x # r) \<and> (tail = [] \<or> prefix sep tail)"
      using 1 2 3 h(4) by (intro conjI)
    then show ?thesis by (intro exI)
  qed
qed

lemma py_split_Inr: "sep \<noteq> [] \<Longrightarrow> py_split s sep = Inr (split_from sep [] s)"
  by (simp add: py_split_def)

lemma py_index_last: "xs \<noteq> [] \<Longrightarrow> py_index xs (- 1) = Inr (last xs)"
proof -
  assume ne: "xs \<noteq> []"
  then have "nat (int (length xs) + - 1) = length xs - 1" by (cases xs) auto
  moreover have "1 \<le> int (length xs)" using ne by (cases xs) auto
  ultimately show ?thesis using ne by (simp add: py_index_def last_conv_nth)
qed

lemma py_index_hd: "xs \<noteq> [] \<Longrightarrow> py_index xs 0 = Inr (hd xs)"
  by (simp add: py_index_def hd_conv_nth)

lemma py_index_1_short: "py_index [x] 1 = Inl (IndexError ''list index out of range'')"
  by (simp add: py_index_def)

lemma py_index_1: "py_index (x # y # ys) 1 = Inr y"
  by (simp add: py_index_def)

section \<open>The two branches of the URL parser\<close>

lemma get_video_id_canonical_absent:
  assumes "\<not> str_contains ''youtu.be'' url" and "str_contains ''youtube.com'' url"
    and "\<not> str_contains ''v='' url"
  shows "get_video_id url = Inl (IndexError ''list index out of range'')"
  using assms
  by (simp add: get_video_id_def py_split_Inr exn_bind_def split_from_absent py_index_1_short)

lemma get_video_id_canonical_first:
  assumes "\<not> str_contains ''youtu.be'' url" and "str_contains ''youtube.com'' url"
    and "url = pre @ ''v='' @ rest" and "\<not> str_contains ''v='' (pre @ ''v'')"
  shows "get_video_id url = Inr (before_first (CHR ''&'') (hd (split_from ''v='' [] rest)))"
proof -
  have sp: "split_from ''v='' [] url = pre # split_from ''v='' [] rest"
    using split_from_first [of "''v=''" pre "[]" rest] assms(3,4) by simp
  obtain y ys where ys: "split_from ''v='' [] rest = y # ys"
    using split_from_not_Nil [of "''v=''" "[]" rest] by (cases "split_from ''v='' [] rest") auto
  have "get_video_id url =
        exn_bind (py_index (split_from ''v='' [] url) 1) (\<lambda>val.
        exn_bind (py_split val ''&'') (\<lambda>as. py_index as 0))"
    using assms(1,2) by (simp add: get_video_id_def py_split_Inr exn_bind_def)
  also have "\<dots> = py_index (split_from ''&'' [] y) 0"
    by (simp add: sp ys py_index_1 py_split_Inr exn_bind_def)
  also have "\<dots> = Inr (before_first (CHR ''&'') y)"
    using hd_split_from_char [of "CHR ''&''" "[]" y]
    by (simp add: py_index_hd split_from_not_Nil)
  finally show ?thesis by (simp add: ys)
qed

section \<open>Facts about the event log and about joining\<close>

lemma completion_options_append:
  "completion_options (xs @ ys) = completion_options xs @ completion_options ys"
  by (induction xs rule: completion_options.induct) simp_all

lemma completion_options_analyze_prompt:
  "completion_options (snd (analyze_prompt w txt m)) = []"
  by (simp add: analyze_prompt_def split: sum.splits)

lemma split_join_char:
  "xs \<noteq> [] \<Longrightarrow> \<forall>x\<in>set xs. c \<notin> set x \<Longrightarrow> split_from [c] [] (py_join [c] xs) = xs"
proof (induction "[c]" xs rule: py_join.induct)
  case 1
  then show ?case by simp
next
  case (2 x)
  then show ?case by (simp add: split_from_absent str_contains_char)
next
  case (3 x y ys)
  have "\<not> str_contains [c] (x @ butlast [c])"
    using "3.prems" by (simp add: str_contains_char)
  then have "split_from [c] [] (x @ [c] @ py_join [c] (y # ys)) =
      ([] @ x) # split_from [c] [] (py_join [c] (y # ys))"
    by (intro split_from_first) simp_all
  then show ?case using 3 by simp
qed

section \<open>The URL parser\<close>

text \<open>
  Claim C4. On every URL that contains \<open>youtu.be\<close>, \<open>get_video_id\<close> returns the part
  of the URL after its last \<open>/\<close>, cut before the first \<open>?\<close> of that part. For
  \<open>https://youtu.be/abc123?t=5\<close> this is \<open>abc123\<close>.
\<close>

theorem short_link_video_id:
  assumes "str_contains ''youtu.be'' url"
  shows "get_video_id url = Inr (before_first (CHR ''?'') (after_last (CHR ''/'') url))"
proof -
  have "get_video_id url =
        exn_bind (py_index (split_from ''/'' [] url) (- 1)) (\<lambda>seg.
        exn_bind (py_split seg ''?'') (\<lambda>qs. py_index qs 0))"
    using assms by (simp add: get_video_id_def py_split_Inr exn_bind_def)
  also have "\<dots> = py_index (split_from ''?'' [] (after_last (CHR ''/'') url)) 0"
    by (simp add: py_index_last split_from_not_Nil last_split_from_char_Nil py_split_Inr
        exn_bind_def)
  also have "\<dots> = Inr (before_first (CHR ''?'') (after_last (CHR ''/'') url))"
    using hd_split_from_char [of "CHR ''?''" "[]"]
    by (simp add: py_index_hd split_from_not_Nil)
  finally show ?thesis .
qed

theorem short_link_video_id_witness:
  "str_contains ''youtu.be'' ''https://youtu.be/abc123?t=5'' \<and>
   get_video_id ''https://youtu.be/abc123?t=5'' = Inr ''abc123'' \<and>
   before_first (CHR ''?'') (after_last (CHR ''/'') ''https://youtu.be/abc123?t=5'') = ''abc123''"
proof -
  have h: "str_contains ''youtu.be'' ''https://youtu.be/abc123?t=5''" by code_simp
  have e: "before_first (CHR ''?'') (after_last (CHR ''/'') ''https://youtu.be/abc123?t=5'') = ''abc123''"
    by code_simp
  show ?thesis using h e short_link_video_id [OF h] by simp
qed

text \<open>
  Claim C8. On every URL that contains neither \<open>youtu.be\<close> nor \<open>youtube.com\<close>,
  \<open>get_video_id\<close> fails with the \<open>ValueError\<close> of an invalid URL.
\<close>

theorem unrecognised_url_fails:
  assumes "\<not> str_contains ''youtu.be'' url" and "\<not> str_contains ''youtube.com'' url"
  shows "get_video_id url =
           Inl (ValueError ''URL must be a valid YouTube URL (youtube.com or youtu.be format)'')"
  using assms by (simp add: get_video_id_def)

theorem unrecognised_url_fails_witness:
  "\<not> str_contains ''youtu.be'' ''https://vimeo.com/12345'' \<and>
   \<not> str_contains ''youtube.com'' ''https://vimeo.com/12345'' \<and>
   get_video_id ''https://vimeo.com/12345'' =
     Inl (ValueError ''URL must be a valid YouTube URL (youtube.com or youtu.be format)'')"
proof -
  have h1: "\<not> str_contains ''youtu.be'' ''https://vimeo.com/12345''" by code_simp
  have h2: "\<not> str_contains ''youtube.com'' ''https://vimeo.com/12345''" by code_simp
  show ?thesis using h1 h2 unrecognised_url_fails [OF h1 h2] by simp
qed

text \<open>
  Claim C9. There is a URL with the marker \<open>youtube.com\<close> and without \<open>v=\<close>, namely
  \<open>https://www.youtube.com/feed\<close>, on which \<open>get_video_id\<close> fails with the
  \<open>IndexError\<close> of reading element 1 of a one-element list, and not with the
  \<open>ValueError\<close> of an invalid URL. (By \<open>get_video_id_canonical_absent\<close> this happens on
  every such URL.)
\<close>

theorem canonical_without_v_index_error:
  "str_contains ''youtube.com'' ''https://www.youtube.com/feed'' \<and>
   \<not> str_contains ''v='' ''https://www.youtube.com/feed'' \<and>
   get_video_id ''https://www.youtube.com/feed'' = Inl (IndexError ''list index out of range'') \<and>
   get_video_id ''https://www.youtube.com/feed'' \<noteq>
     Inl (ValueError ''URL must be a valid YouTube URL (youtube.com or youtu.be format)'')"
proof -
  have h1: "\<not> str_contains ''youtu.be'' ''https://www.youtube.com/feed''" by code_simp
  have h2: "str_contains ''youtube.com'' ''https://www.youtube.com/feed''" by code_simp
  have h3: "\<not> str_contains ''v='' ''https://www.youtube.com/feed''" by code_simp
  show ?thesis using h2 h3 get_video_id_canonical_absent [OF h1 h2 h3] by simp
qed

text \<open>
  Claim C3, as amended. Whenever \<open>get_video_id\<close> returns, the URL contains one of the two
  markers (so on any other URL it fails). The identifier returned may be empty; when it is,
  \<open>process_video\<close> stops at the guard of \<open>get_transcript\<close> with ``Video ID is
  required'', before any request to the transcript service.
\<close>

theorem video_id_only_from_marked_url:
  assumes "get_video_id url = Inr v"
  shows "(str_contains ''youtu.be'' url \<or> str_contains ''youtube.com'' url) \<and>
         (v = [] \<longrightarrow> process_video w self url = (Inl (ValueError ''Video ID is required''), []))"
proof
  show "str_contains ''youtu.be'' url \<or> str_contains ''youtube.com'' url"
    using assms by (auto simp: get_video_id_def split: if_splits)
  show "v = [] \<longrightarrow> process_video w self url = (Inl (ValueError ''Video ID is required''), [])"
    using assms by (simp add: process_video_def get_transcript_def)
qed

theorem video_id_only_from_marked_url_witness:
  "get_video_id ''https://youtu.be/'' = Inr [] \<and>
   (str_contains ''youtu.be'' ''https://youtu.be/'' \<or> str_contains ''youtube.com'' ''https://youtu.be/'') \<and>
   process_video sample_env (fst YouTubeSummarizer_init) ''https://youtu.be/'' =
     (Inl (ValueError ''Video ID is required''), [])"
proof -
  have h: "get_video_id ''https://youtu.be/'' = Inr []" by code_simp
  show ?thesis
    using h video_id_only_from_marked_url [OF h, of sample_env "fst YouTubeSummarizer_init"]
    by simp
qed

text \<open>
  The identifier is not always non-empty: \<open>https://youtu.be/\<close> carries the short marker
  and yields the empty string.
\<close>

theorem empty_video_id_counterexample:
  "str_contains ''youtu.be'' ''https://youtu.be/'' \<and> get_video_id ''https://youtu.be/'' = Inr []"
  by code_simp

text \<open>
  Claim C2, as amended. On every URL without \<open>youtu.be\<close>, with \<open>youtube.com\<close> and with
  an occurrence of \<open>v=\<close>, \<open>get_video_id\<close> returns the text that follows the first
  \<open>v=\<close> up to the next \<open>&\<close> or the next \<open>v=\<close>, whichever comes first, or up to the
  end of the URL when neither follows. Here \<open>pre\<close> is what precedes the first \<open>v=\<close>
  and \<open>rest\<close> what follows it.
\<close>

theorem canonical_video_id:
  assumes "\<not> str_contains ''youtu.be'' url" and "str_contains ''youtube.com'' url"
    and "url = pre @ ''v='' @ rest" and "\<not> str_contains ''v='' (pre @ ''v'')"
  shows "\<exists>vid tail. get_video_id url = Inr vid \<and> rest = vid @ tail \<and>
           CHR ''&'' \<notin> set vid \<and> \<not> str_contains ''v='' vid \<and>
           (tail = [] \<or> prefix ''&'' tail \<or> prefix ''v='' tail)"
proof -
  have "''v='' \<noteq> []" by simp
  from hd_split_from_spec [OF this, of "[]" rest]
  obtain r tail where r: "hd (split_from ''v='' [] rest) = [] @ r" "rest = r @ tail"
      "\<not> str_contains ''v='' r" "tail = [] \<or> prefix ''v='' tail"
    by (elim exE conjE)
  define vid where "vid = before_first (CHR ''&'') r"
  define cut where "cut = dropWhile (\<lambda>x. x \<noteq> CHR ''&'') r"
  have split: "r = vid @ cut"
    by (simp add: vid_def cut_def before_first_def)
  have 1: "get_video_id url = Inr vid"
    using get_video_id_canonical_first [OF assms] r(1) by (simp add: vid_def)
  have 2: "rest = vid @ (cut @ tail)"
    using r(2) split by simp
  have 3: "CHR ''&'' \<notin> set vid"
    using set_takeWhileD [of "CHR ''&''" "\<lambda>x. x \<noteq> CHR ''&''" r]
    by (auto simp: vid_def before_first_def)
  have 4: "\<not> str_contains ''v='' vid"
  proof
    assume "str_contains ''v='' vid"
    then obtain a b where "vid = a @ ''v='' @ b"
      unfolding str_contains_iff by (elim exE)
    then have "r = a @ ''v='' @ (b @ cut)" using split by simp
    then have "str_contains ''v='' r" unfolding str_contains_iff by (intro exI)
    with r(3) show False by simp
  qed
  have 5: "cut @ tail = [] \<or> prefix ''&'' (cut @ tail) \<or> prefix ''v='' (cut @ tail)"
  proof (cases cut)
    case Nil
    then show ?thesis using r(4) by auto
  next
    case (Cons x xs)
    then have "\<not> (hd cut \<noteq> CHR ''&'')"
      unfolding cut_def using hd_dropWhile [of "\<lambda>x. x \<noteq> CHR ''&''" r] by simp
    then show ?thesis using Cons by simp
  qed
  from 1 2 3 4 5 have "get_video_id url = Inr vid \<and> rest = vid @ (cut @ tail) \<and>
      CHR ''&'' \<notin> set vid \<and> \<not> str_contains ''v='' vid \<and>
      (cut @ tail = [] \<or> prefix ''&'' (cut @ tail) \<or> prefix ''v='' (cut @ tail))"
    by (intro conjI)
  then show ?thesis by (intro exI)
qed

theorem canonical_video_id_witness:
  "\<not> str_contains ''youtu.be'' ''https://www.youtube.com/watch?v=XYZ&t=10'' \<and>
   str_contains ''youtube.com'' ''https://www.youtube.com/watch?v=XYZ&t=10'' \<and>
   ''https://www.youtube.com/watch?v=XYZ&t=10'' = ''https://www.youtube.com/watch?'' @ ''v='' @ ''XYZ&t=10'' \<and>
   \<not> str_contains ''v='' (''https://www.youtube.com/watch?'' @ ''v'') \<and>
   (\<exists>vid tail. get_video_id ''https://www.youtube.com/watch?v=XYZ&t=10'' = Inr vid \<and>
      ''XYZ&t=10'' = vid @ tail \<and> CHR ''&'' \<notin> set vid \<and> \<not> str_contains ''v='' vid \<and>
      (tail = [] \<or> prefix ''&'' tail \<or> prefix ''v='' tail)) \<and>
   get_video_id ''https://www.youtube.com/watch?v=XYZ&t=10'' = Inr ''XYZ''"
proof -
  have h1: "\<not> str_contains ''youtu.be'' ''https://www.youtube.com/watch?v=XYZ&t=10''"
    by code_simp
  have h2: "str_contains ''youtube.com'' ''https://www.youtube.com/watch?v=XYZ&t=10''"
    by code_simp
  have h3: "''https://www.youtube.com/watch?v=XYZ&t=10'' =
      ''https://www.youtube.com/watch?'' @ ''v='' @ ''XYZ&t=10''"
    by simp
  have h4: "\<not> str_contains ''v='' (''https://www.youtube.com/watch?'' @ ''v'')"
    by code_simp
  have e: "get_video_id ''https://www.youtube.com/watch?v=XYZ&t=10'' = Inr ''XYZ''"
    by code_simp
  from canonical_video_id [OF h1 h2 h3 h4] h1 h2 h3 h4 e show ?thesis
    by (intro conjI)
qed

text \<open>
  The wording without the two amendments fails twice. \<open>https://www.youtube.com/feed\<close> has
  the canonical marker and no \<open>v=\<close>, and nothing is returned. In
  \<open>https://www.youtube.com/watch?v=av=b\<close> the text after the first \<open>v=\<close> is \<open>av=b\<close>
  and holds no \<open>&\<close>, yet \<open>a\<close> is returned.
\<close>

theorem canonical_video_id_counterexample:
  "\<not> str_contains ''youtu.be'' ''https://www.youtube.com/feed'' \<and>
   str_contains ''youtube.com'' ''https://www.youtube.com/feed'' \<and>
   get_video_id ''https://www.youtube.com/feed'' = Inl (IndexError ''list index out of range'') \<and>
   \<not> str_contains ''youtu.be'' ''https://www.youtube.com/watch?v=av=b'' \<and>
   str_contains ''youtube.com'' ''https://www.youtube.com/watch?v=av=b'' \<and>
   ''https://www.youtube.com/watch?v=av=b'' = ''https://www.youtube.com/watch?'' @ ''v='' @ ''av=b'' \<and>
   \<not> str_contains ''v='' ''https://www.youtube.com/watch?'' \<and>
   before_first (CHR ''&'') ''av=b'' = ''av=b'' \<and>
   get_video_id ''https://www.youtube.com/watch?v=av=b'' = Inr ''a''"
  by code_simp

section \<open>The transcript fetcher\<close>

text \<open>
  Claim C5. \<open>get_transcript\<close> fails with the \<open>ValueError\<close> ``Video ID is required''
  exactly when the identifier is empty, and then asks the service nothing. Otherwise it
  sends the transcript service one request and nothing more, and when that request fails
  with \<open>e\<close> it fails with an \<open>Exception\<close> whose text is ``Failed to retrieve
  transcript: '' followed by the text of \<open>e\<close>.
\<close>

theorem get_transcript_failures:
  "(fst (get_transcript w video_id) = Inl (ValueError ''Video ID is required'') \<longleftrightarrow> video_id = []) \<and>
   (video_id = [] \<longrightarrow> snd (get_transcript w video_id) = []) \<and>
   (video_id \<noteq> [] \<longrightarrow> snd (get_transcript w video_id) = [Transcript_request video_id]) \<and>
   (video_id \<noteq> [] \<longrightarrow> transcript_api w video_id = Inl e \<longrightarrow>
      fst (get_transcript w video_id) =
        Inl (Exception (''Failed to retrieve transcript: '' @ exn_str e)))"
proof (cases "video_id = []")
  case True
  then show ?thesis by (simp add: get_transcript_def)
next
  case False
  have "fst (get_transcript w video_id) \<noteq> Inl (ValueError ''Video ID is required'')"
    using False by (simp add: get_transcript_def split: sum.splits)
  moreover have "snd (get_transcript w video_id) = [Transcript_request video_id]"
    using False by (simp add: get_transcript_def)
  moreover have "transcript_api w video_id = Inl e \<longrightarrow>
      fst (get_transcript w video_id) =
        Inl (Exception (''Failed to retrieve transcript: '' @ exn_str e))"
    using False by (simp add: get_transcript_def)
  ultimately show ?thesis using False by simp
qed

theorem get_transcript_failures_witness:
  "fst (get_transcript offline_env []) = Inl (ValueError ''Video ID is required'') \<and>
   snd (get_transcript offline_env []) = [] \<and>
   ''abc123'' \<noteq> [] \<and>
   transcript_api offline_env ''abc123'' =
     Inl (External_error ''Subtitles are disabled for this video'') \<and>
   snd (get_transcript offline_env ''abc123'') = [Transcript_request ''abc123''] \<and>
   fst (get_transcript offline_env ''abc123'') =
     Inl (Exception ''Failed to retrieve transcript: Subtitles are disabled for this video'')"
  using get_transcript_failures [of offline_env "[]"]
    get_transcript_failures [of offline_env "''abc123''"
      "External_error ''Subtitles are disabled for this video''"]
  by (simp add: offline_env_def)

text \<open>
  Claim C6. When the transcript service delivers the segments \<open>segs\<close>,
  \<open>get_transcript\<close> returns their texts joined by single blanks, in the order of
  delivery and with nothing dropped or merged: where no text holds a blank, cutting the
  result at its blanks gives back the list of texts. Texts \<open>a\<close>, \<open>b\<close>, \<open>c\<close> give
  \<open>a b c\<close>.
\<close>

theorem get_transcript_joins_segments:
  assumes "video_id \<noteq> []" and "transcript_api w video_id = Inr segs"
  shows "fst (get_transcript w video_id) = Inr (py_join '' '' (map seg_text segs)) \<and>
         (segs \<noteq> [] \<and> (\<forall>s\<in>set segs. CHR '' '' \<notin> set (seg_text s)) \<longrightarrow>
            split_from '' '' [] (py_join '' '' (map seg_text segs)) = map seg_text segs)"
  using assms split_join_char [of "map seg_text segs" "CHR '' ''"]
  by (simp add: get_transcript_def)

theorem get_transcript_joins_segments_witness:
  "''abc123'' \<noteq> [] \<and>
   transcript_api sample_env ''abc123'' =
     Inr [\<lparr>seg_text = ''a'', seg_start = 0, seg_duration = 1\<rparr>,
          \<lparr>seg_text = ''b'', seg_start = 1, seg_duration = 1\<rparr>,
          \<lparr>seg_text = ''c'', seg_start = 2, seg_duration = 1\<rparr>] \<and>
   fst (get_transcript sample_env ''abc123'') = Inr ''a b c'' \<and>
   split_from '' '' [] ''a b c'' = [''a'', ''b'', ''c'']"
proof -
  have h1: "''abc123'' \<noteq> []" by simp
  have h2: "transcript_api sample_env ''abc123'' =
     Inr [\<lparr>seg_text = ''a'', seg_start = 0, seg_duration = 1\<rparr>,
          \<lparr>seg_text = ''b'', seg_start = 1, seg_duration = 1\<rparr>,
          \<lparr>seg_text = ''c'', seg_start = 2, seg_duration = 1\<rparr>]"
    by (simp add: sample_env_def)
  show ?thesis
    using h1 h2 get_transcript_joins_segments [OF h1 h2] by simp
qed

section \<open>The question-answering pipeline and the completion options\<close>

text \<open>
  Claim C7. \<open>ask\<close> with the question \<open>None\<close> fails with the \<open>ValueError\<close>
  ``Question cannot be None'' and has done nothing by then: its event log is empty, so in
  particular the completion client was not invoked.
\<close>

theorem ask_None_fails_before_completion:
  "fst (ask w self None) = Inl (ValueError ''Question cannot be None'') \<and>
   snd (ask w self None) = [] \<and>
   completion_options (snd (ask w self None)) = []"
  by (simp add: ask_def)

lemma ask_Some_not_rejected:
  "fst (ask w self (Some q)) \<noteq> Inl (ValueError ''Question cannot be None'')"
  by (simp add: ask_def analyze_prompt_tokens_def analyze_prompt_def count_tokens_def Let_def
      split: sum.splits option.splits prod.splits)

text \<open>
  Claim C10, as amended. \<open>ask\<close> fails with ``Question cannot be None'' for the question
  \<open>None\<close> only; the empty string is not rejected. For a string \<open>q\<close>, the empty one
  included, the agent prompt is rendered with \<open>q\<close> in the place of the question, and,
  provided that counting its tokens and building the chat model do not raise, the prompt and
  its token count are printed and the completion client is invoked on the rendered prompt;
  the result is the client's answer, or the client's failure wrapped. The rendered text is
  written out in the first hypothesis.
\<close>

theorem ask_empty_question_proceeds:
  assumes "rendered = concat
     [[CHR 0x0A],
      ''        Answer the following questions as best you can. You have access to the following tools:'',
      [CHR 0x0A, CHR 0x0A],
      ''        '', tools_str self, [CHR 0x0A, CHR 0x0A],
      ''        Use the following format:'', [CHR 0x0A, CHR 0x0A],
      ''        Question: the input question you must answer'', [CHR 0x0A],
      ''        Thought: you should always think about what to do'', [CHR 0x0A],
      ''        Action: the action to take, should be one of '', py_str_list (tool_names self),
      [CHR 0x0A],
      ''        Action Input: the input to the action'', [CHR 0x0A],
      ''        Observation: the result of the action'', [CHR 0x0A],
      ''        ... (this Thought/Action/Action Input/Observation can repeat N times)'', [CHR 0x0A],
      ''        Thought: I now know the final answer'', [CHR 0x0A],
      ''        Final Answer: the final answer to the original input question'',
      [CHR 0x0A, CHR 0x0A],
      ''        Begin!'', [CHR 0x0A, CHR 0x0A],
      ''        Question: '', q, [CHR 0x0A],
      ''        '']"
    and "chat = \<lparr>model = agent_model_name self, temperature = 0, max_tokens = None,
                    timeout = None, max_retries = 2\<rparr>"
  shows "(fst (ask w self question) = Inl (ValueError ''Question cannot be None'') \<longleftrightarrow>
            question = None) \<and>
         (tiktoken_encode w ''gpt-4o-mini'' rendered = Inr tokens \<and> ChatGroq_raises w chat = None \<longrightarrow>
            snd (ask w self (Some q)) =
              [Print (''Prompt Text: '' @ rendered),
               Print (''Prompt Input Tokens: '' @ py_str_nat (length tokens)),
               Completion_request chat rendered] \<and>
            fst (ask w self (Some q)) =
              (case chat_invoke w chat rendered of
                 Inr answer \<Rightarrow> Inr answer
               | Inl e \<Rightarrow> Inl (Exception (''Error processing question: '' @ exn_str e))))"
proof
  show "fst (ask w self question) = Inl (ValueError ''Question cannot be None'') \<longleftrightarrow>
          question = None"
  proof (cases question)
    case None
    then show ?thesis by (simp add: ask_def)
  next
    case (Some q')
    then show ?thesis using ask_Some_not_rejected [of w self q'] by simp
  qed
next
  have r: "agent_create_prompt (tools_str self) (tool_names self) q = rendered"
    by (simp add: assms(1) agent_create_prompt_def nl_def ind_def)
  show "tiktoken_encode w ''gpt-4o-mini'' rendered = Inr tokens \<and> ChatGroq_raises w chat = None \<longrightarrow>
            snd (ask w self (Some q)) =
              [Print (''Prompt Text: '' @ rendered),
               Print (''Prompt Input Tokens: '' @ py_str_nat (length tokens)),
               Completion_request chat rendered] \<and>
            fst (ask w self (Some q)) =
              (case chat_invoke w chat rendered of
                 Inr answer \<Rightarrow> Inr answer
               | Inl e \<Rightarrow> Inl (Exception (''Error processing question: '' @ exn_str e)))"
  proof
    assume h: "tiktoken_encode w ''gpt-4o-mini'' rendered = Inr tokens \<and> ChatGroq_raises w chat = None"
    have a: "analyze_prompt_tokens w self q agent_create_prompt =
        (Inr (), [Print (''Prompt Text: '' @ rendered),
                  Print (''Prompt Input Tokens: '' @ py_str_nat (length tokens))])"
      using h by (simp add: analyze_prompt_tokens_def analyze_prompt_def count_tokens_def
          default_model_name_def Let_def r)
    show "snd (ask w self (Some q)) =
              [Print (''Prompt Text: '' @ rendered),
               Print (''Prompt Input Tokens: '' @ py_str_nat (length tokens)),
               Completion_request chat rendered] \<and>
            fst (ask w self (Some q)) =
              (case chat_invoke w chat rendered of
                 Inr answer \<Rightarrow> Inr answer
               | Inl e \<Rightarrow> Inl (Exception (''Error processing question: '' @ exn_str e)))"
      using h assms(2) by (simp add: ask_def Let_def a r)
  qed
qed

theorem ask_empty_question_proceeds_witness:
  "(let rendered =
      [CHR 0x0A] @
      ''        Answer the following questions as best you can. You have access to the following tools:'' @
      [CHR 0x0A, CHR 0x0A] @
      ''        python repl: Useful for executing Python code to answer computational questions'' @
      [CHR 0x0A] @
      ''wikipedia: Useful for looking up factual information about topics, countries or people'' @
      [CHR 0x0A, CHR 0x0A, CHR 0x0A] @
      ''        Use the following format:'' @ [CHR 0x0A, CHR 0x0A] @
      ''        Question: the input question you must answer'' @ [CHR 0x0A] @
      ''        Thought: you should always think about what to do'' @ [CHR 0x0A] @
      ''        Action: the action to take, should be one of ['python repl', 'wikipedia']'' @
      [CHR 0x0A] @
      ''        Action Input: the input to the action'' @ [CHR 0x0A] @
      ''        Observation: the result of the action'' @ [CHR 0x0A] @
      ''        ... (this Thought/Action/Action Input/Observation can repeat N times)'' @ [CHR 0x0A] @
      ''        Thought: I now know the final answer'' @ [CHR 0x0A] @
      ''        Final Answer: the final answer to the original input question'' @
      [CHR 0x0A, CHR 0x0A] @
      ''        Begin!'' @ [CHR 0x0A, CHR 0x0A] @
      ''        Question: '' @ [CHR 0x0A] @
      ''        '';
      chat = \<lparr>model = ''llama-3.2-3b-preview'', temperature = 0, max_tokens = None,
               timeout = None, max_retries = 2\<rparr>
    in tiktoken_encode sample_env ''gpt-4o-mini'' rendered = Inr (map of_char rendered) \<and>
       ChatGroq_raises sample_env chat = None \<and>
       ask sample_env (fst MultiToolsAgent_init) (Some '''') =
         (Inr ''ok'',
          [Print (''Prompt Text: '' @ rendered),
           Print ''Prompt Input Tokens: 832'',
           Completion_request chat rendered]))"
proof -
  define rendered where "rendered =
      [CHR 0x0A] @
      ''        Answer the following questions as best you can. You have access to the following tools:'' @
      [CHR 0x0A, CHR 0x0A] @
      ''        python repl: Useful for executing Python code to answer computational questions'' @
      [CHR 0x0A] @
      ''wikipedia: Useful for looking up factual information about topics, countries or people'' @
      [CHR 0x0A, CHR 0x0A, CHR 0x0A] @
      ''        Use the following format:'' @ [CHR 0x0A, CHR 0x0A] @
      ''        Question: the input question you must answer'' @ [CHR 0x0A] @
      ''        Thought: you should always think about what to do'' @ [CHR 0x0A] @
      ''        Action: the action to take, should be one of ['python repl', 'wikipedia']'' @
      [CHR 0x0A] @
      ''        Action Input: the input to the action'' @ [CHR 0x0A] @
      ''        Observation: the result of the action'' @ [CHR 0x0A] @
      ''        ... (this Thought/Action/Action Input/Observation can repeat N times)'' @ [CHR 0x0A] @
      ''        Thought: I now know the final answer'' @ [CHR 0x0A] @
      ''        Final Answer: the final answer to the original input question'' @
      [CHR 0x0A, CHR 0x0A] @
      ''        Begin!'' @ [CHR 0x0A, CHR 0x0A] @
      ''        Question: '' @ [CHR 0x0A] @
      ''        ''"
  define chat where "chat = \<lparr>model = ''llama-3.2-3b-preview'', temperature = 0,
      max_tokens = None, timeout = None, max_retries = 2\<rparr>"
  define agent where "agent = fst MultiToolsAgent_init"
  have names: "py_str_list (tool_names agent) = ''['python repl', 'wikipedia']''"
    unfolding agent_def by code_simp
  have tools: "tools_str agent =
      ''python repl: Useful for executing Python code to answer computational questions'' @
      [CHR 0x0A] @
      ''wikipedia: Useful for looking up factual information about topics, countries or people'' @
      [CHR 0x0A]"
    unfolding agent_def by code_simp
  have h1: "rendered = concat
     [[CHR 0x0A],
      ''        Answer the following questions as best you can. You have access to the following tools:'',
      [CHR 0x0A, CHR 0x0A],
      ''        '', tools_str agent, [CHR 0x0A, CHR 0x0A],
      ''        Use the following format:'', [CHR 0x0A, CHR 0x0A],
      ''        Question: the input question you must answer'', [CHR 0x0A],
      ''        Thought: you should always think about what to do'', [CHR 0x0A],
      ''        Action: the action to take, should be one of '', py_str_list (tool_names agent),
      [CHR 0x0A],
      ''        Action Input: the input to the action'', [CHR 0x0A],
      ''        Observation: the result of the action'', [CHR 0x0A],
      ''        ... (this Thought/Action/Action Input/Observation can repeat N times)'', [CHR 0x0A],
      ''        Thought: I now know the final answer'', [CHR 0x0A],
      ''        Final Answer: the final answer to the original input question'',
      [CHR 0x0A, CHR 0x0A],
      ''        Begin!'', [CHR 0x0A, CHR 0x0A],
      ''        Question: '', [], [CHR 0x0A],
      ''        '']"
    unfolding names tools rendered_def by simp
  have h2: "chat = \<lparr>model = agent_model_name agent, temperature = 0, max_tokens = None,
                    timeout = None, max_retries = 2\<rparr>"
    by (simp add: chat_def agent_def MultiToolsAgent_init_def initialize_tools_def Let_def)
  have h3: "tiktoken_encode sample_env ''gpt-4o-mini'' rendered = Inr (map of_char rendered) \<and>
      ChatGroq_raises sample_env chat = None"
    by (simp add: sample_env_def)
  have len: "py_str_nat (length rendered) = ''832''"
    unfolding rendered_def by code_simp
  have inv: "chat_invoke sample_env chat rendered = Inr ''ok''"
    by (simp add: sample_env_def)
  from ask_empty_question_proceeds [OF h1 h2, of sample_env "Some []" "map of_char rendered"] h3
  have "snd (ask sample_env agent (Some [])) =
          [Print (''Prompt Text: '' @ rendered), Print ''Prompt Input Tokens: 832'',
           Completion_request chat rendered] \<and>
        fst (ask sample_env agent (Some [])) = Inr ''ok''"
    by (simp add: len inv)
  then have "ask sample_env agent (Some []) =
      (Inr ''ok'', [Print (''Prompt Text: '' @ rendered), Print ''Prompt Input Tokens: 832'',
           Completion_request chat rendered])"
    by (cases "ask sample_env agent (Some [])") simp
  with h3 show ?thesis
    unfolding Let_def rendered_def [symmetric] chat_def [symmetric] agent_def [symmetric]
    by simp
qed

text \<open>
  Without the proviso the statement fails: where the vocabulary of the tokenizer cannot be
  loaded, \<open>ask\<close> with the empty string raises the tokenizer's exception before the
  \<open>try\<close>, and neither a line is printed nor the completion client invoked.
\<close>

theorem ask_empty_question_counterexample:
  "ask offline_env (fst MultiToolsAgent_init) (Some '''') =
     (Inl (External_error ''Max retries exceeded with url: o200k_base.tiktoken''), []) \<and>
   completion_options (snd (ask offline_env (fst MultiToolsAgent_init) (Some ''''))) = []"
  by (simp add: ask_def analyze_prompt_tokens_def analyze_prompt_def count_tokens_def
      offline_env_def Let_def)

text \<open>
  Claim C1, as amended. Every invocation of the completion client by \<open>ask\<close> carries
  temperature 0, and every invocation by \<open>summarize\<close> carries temperature 0.5; all of
  them carry no limit on the output length, no timeout and 2 retries.
\<close>

theorem completion_options_of_requests:
  "(\<forall>opts \<in> set (completion_options (snd (summarize w self transcript))).
      opts = \<lparr>model = yt_model_name self, temperature = 0.5, max_tokens = None, timeout = None,
              max_retries = 2\<rparr>) \<and>
   (\<forall>opts \<in> set (completion_options (snd (ask w agent question))).
      opts = \<lparr>model = agent_model_name agent, temperature = 0, max_tokens = None,
              timeout = None, max_retries = 2\<rparr>)"
proof
  have s: "completion_options (snd (get_prompt_tokens w self transcript create_prompt)) = []"
    by (simp add: get_prompt_tokens_def Let_def completion_options_analyze_prompt)
  show "\<forall>opts \<in> set (completion_options (snd (summarize w self transcript))).
      opts = \<lparr>model = yt_model_name self, temperature = 0.5, max_tokens = None, timeout = None,
              max_retries = 2\<rparr>"
    using s by (auto simp: summarize_def Let_def completion_options_append
        split: prod.splits sum.splits option.splits)
  have a: "\<And>q. completion_options (snd (analyze_prompt_tokens w agent q agent_create_prompt)) = []"
    by (simp add: analyze_prompt_tokens_def Let_def completion_options_analyze_prompt)
  show "\<forall>opts \<in> set (completion_options (snd (ask w agent question))).
      opts = \<lparr>model = agent_model_name agent, temperature = 0, max_tokens = None,
              timeout = None, max_retries = 2\<rparr>"
  proof (cases question)
    case None
    then show ?thesis by (simp add: ask_def)
  next
    case (Some q)
    then show ?thesis using a [of q]
      by (auto simp: ask_def Let_def completion_options_append
          split: prod.splits sum.splits option.splits)
  qed
qed

theorem completion_options_of_requests_witness:
  "completion_options (snd (summarize sample_env (fst YouTubeSummarizer_init) ''T'')) =
     [\<lparr>model = ''llama-3.2-3b-preview'', temperature = 0.5, max_tokens = None, timeout = None,
       max_retries = 2\<rparr>] \<and>
   completion_options (snd (ask sample_env (fst MultiToolsAgent_init) (Some ''Who?''))) =
     [\<lparr>model = ''llama-3.2-3b-preview'', temperature = 0, max_tokens = None, timeout = None,
       max_retries = 2\<rparr>]"
proof -
  have 1: "completion_options (snd (summarize sample_env (fst YouTubeSummarizer_init) ''T'')) =
     [\<lparr>model = ''llama-3.2-3b-preview'', temperature = 0.5, max_tokens = None, timeout = None,
       max_retries = 2\<rparr>]"
    by (simp add: summarize_def get_prompt_tokens_def analyze_prompt_def count_tokens_def
        sample_env_def YouTubeSummarizer_init_def Let_def)
  have 2: "completion_options (snd (ask sample_env (fst MultiToolsAgent_init) (Some ''Who?''))) =
     [\<lparr>model = ''llama-3.2-3b-preview'', temperature = 0, max_tokens = None, timeout = None,
       max_retries = 2\<rparr>]"
    by (simp add: ask_def analyze_prompt_tokens_def analyze_prompt_def count_tokens_def
        sample_env_def MultiToolsAgent_init_def initialize_tools_def Let_def)
  show ?thesis
    using 1 2 completion_options_of_requests [of sample_env "fst YouTubeSummarizer_init" "''T''"
      "fst MultiToolsAgent_init" "Some ''Who?''"]
    by simp
qed

text \<open>
  The temperature of a summarization request is not 0: the request made for the
  transcript \<open>T\<close> carries 0.5.
\<close>

theorem summarize_temperature_counterexample:
  "map temperature
     (completion_options (snd (summarize sample_env (fst YouTubeSummarizer_init) ''T''))) = [0.5] \<and>
   (0.5 :: real) \<noteq> 0"
  by (simp add: summarize_def get_prompt_tokens_def analyze_prompt_def count_tokens_def
      sample_env_def YouTubeSummarizer_init_def Let_def)

end
